theory Spec2Isabelle
  imports Main "HOL-Library.AList"
begin

section \<open>The dataform command line (cli/index.ts)\<close>

subsection \<open>JavaScript values as the command line reads them\<close>

text \<open>
  A command's \<open>processFn\<close> returns a number, or returns without a value
  (\<open>return;\<close>), which in JavaScript is \<open>undefined\<close>.
\<close>

datatype ret = Undefined | Code int

text \<open>
  An option that has no default is \<open>undefined\<close> in \<open>argv\<close> when it is not on the
  command line: such a field is an \<open>option\<close>. The source tests these fields for
  truthiness: \<open>undefined\<close>, \<open>null\<close>, \<open>false\<close> and the empty string are falsy, and
  every array is truthy, the empty one too.
\<close>

definition truthy_bool :: "bool option \<Rightarrow> bool" where
  "truthy_bool b = (b = Some True)"

definition truthy_array :: "'a list option \<Rightarrow> bool" where
  "truthy_array a = (a \<noteq> None)"

definition truthy_string :: "string option \<Rightarrow> bool" where
  "truthy_string s = (case s of None \<Rightarrow> False | Some v \<Rightarrow> v \<noteq> [])"

definition truthy_number :: "int option \<Rightarrow> bool" where
  "truthy_number n = (case n of None \<Rightarrow> False | Some v \<Rightarrow> v \<noteq> 0)"

datatype js_error = TypeError string | Error string

subsection \<open>The coerce functions of --actions and --tags\<close>

text \<open>
  \<open>String.prototype.split(sep)\<close> for a one-character separator: the pieces between
  the separators, in order, the empty ones too; a string with no separator is
  its own single piece, and the empty string gives one empty piece.
\<close>

fun js_split :: "char \<Rightarrow> string \<Rightarrow> string list" where
  "js_split sep [] = [[]]"
| "js_split sep (c # cs) =
     (if c = sep then [] # js_split sep cs
      else (case js_split sep cs of
              [] \<Rightarrow> [[c]]
            | w # ws \<Rightarrow> (c # w) # ws))"

text \<open>\<open>Array.prototype.join(sep)\<close>, used to write a comma-separated argument.\<close>

fun js_join :: "char \<Rightarrow> string list \<Rightarrow> string" where
  "js_join sep [] = []"
| "js_join sep [x] = x"
| "js_join sep (x # y # ys) = x @ sep # js_join sep (y # ys)"

text \<open>
  \<open>coerce: (rawActions: string[] | null) => rawActions.map(actions => actions.split(",")).flat()\<close>.
  Calling \<open>map\<close> on \<open>null\<close> throws a TypeError; \<open>flat()\<close> flattens one level.
\<close>

definition actions_coerce :: "string list option \<Rightarrow> js_error + string list" where
  "actions_coerce rawActions =
     (case rawActions of
        None \<Rightarrow> Inl (TypeError ''Cannot read properties of null (reading 'map')'')
      | Some xs \<Rightarrow> Inr (concat (map (\<lambda>actions. js_split CHR '','' actions) xs)))"

definition tags_coerce :: "string list option \<Rightarrow> js_error + string list" where
  "tags_coerce rawTags =
     (case rawTags of
        None \<Rightarrow> Inl (TypeError ''Cannot read properties of null (reading 'map')'')
      | Some xs \<Rightarrow> Inr (concat (map (\<lambda>tags. js_split CHR '','' tags) xs)))"

subsection \<open>Data handed between the command line and its collaborators\<close>

text \<open>
  The protos give \<open>Target\<close>, \<open>CompilationError\<close>, \<open>GraphErrors\<close>, \<open>Test\<close> and
  \<open>CompiledGraph\<close>; only the fields the command line reads are kept. The
  execution protos (\<open>ExecutionGraph\<close>, \<open>RunResult\<close>, \<open>ActionResult\<close>) are not
  among the sources: their fields are the ones cli/index.ts reads, and the
  statuses are the ones the specification lists.
\<close>

record target =
  database :: string
  schema :: string
  name :: string

record compilation_error =
  file_name :: string
  message :: string

record graph_errors =
  compilationErrors :: "compilation_error list"

record unit_test =
  test_name :: string
  test_query :: string
  expected_output_query :: string

record compiled_graph =
  tests :: "unit_test list"
  graphErrors :: graph_errors

record test_result =
  tr_name :: string
  successful :: bool

datatype ExecutionStatus = PENDING | RUNNING | SUCCESSFUL | FAILED | SKIPPED | CANCELLED

record execution_action =
  ea_target :: target
  ea_tasks :: "string list"

record execution_graph =
  eg_actions :: "execution_action list"

record action_result =
  ar_target :: target
  ar_status :: ExecutionStatus

record run_result =
  rr_status :: ExecutionStatus
  rr_actions :: "action_result list"

text \<open>The arguments of \<open>compile\<close>, of \<open>build\<close> and the \<open>bigquery\<close> options of \<open>run\<close>.\<close>

record compile_args =
  ca_projectDir :: string
  ca_timeoutMillis :: "int option"

record run_config =
  rc_fullRefresh :: bool
  rc_actions :: "string list option"
  rc_includeDependencies :: "bool option"
  rc_includeDependents :: "bool option"
  rc_tags :: "string list option"

record bigquery_options =
  bq_actionRetryLimit :: int
  bq_dryRun :: "bool option"
  bq_jobPrefix :: "string option"

text \<open>
  A runner, as the command line sees it: the snapshots it hands to the
  \<open>onChange\<close> callback while the run is under way, and the \<open>RunResult\<close> its
  \<open>result()\<close> promise resolves to.
\<close>

record runner =
  changes :: "run_result list"
  result :: run_result

text \<open>
  The collaborators imported from df/cli/api and df/core/targets, none of them
  among the sources, as parameters: what each call returns for its arguments.
  A call that throws or never resolves ends \<open>processFn\<close> without a return value
  and is outside this model.
\<close>

record collaborators =
  compile :: "compile_args \<Rightarrow> compiled_graph"
  build :: "compiled_graph \<Rightarrow> run_config \<Rightarrow> execution_graph"
  test :: "unit_test list \<Rightarrow> test_result list"
  run :: "execution_graph \<Rightarrow> bigquery_options \<Rightarrow> runner"
  targetAsReadableString :: "target \<Rightarrow> string"

text \<open>
  Modelled from the spec: \<open>compiledGraphHasErrors\<close> of df/cli/util is not among
  the sources; by the specification the run is refused if any compilation
  error is present.
\<close>

definition compiledGraphHasErrors :: "compiled_graph \<Rightarrow> bool" where
  "compiledGraphHasErrors g = (compilationErrors (graphErrors g) \<noteq> [])"

subsection \<open>What a command does, in order\<close>

datatype event =
    Print string
  | PrintSuccess string
  | PrintError string
  | Compile compile_args
  | PrintCompiledGraphErrors graph_errors
  | CredentialsRead string string
  | Build compiled_graph run_config
  | PrintExecutionGraph execution_graph bool
  | Test "unit_test list"
  | PrintTestResult test_result
  | Run execution_graph bigquery_options
  | OnSigintCancel
  | OnChange
  | AwaitResult
  | PrintExecutedAction action_result "execution_action option" "bool option"

fun is_Compile :: "event \<Rightarrow> bool" where
  "is_Compile (Compile a) = True"
| "is_Compile e = False"

fun is_Build :: "event \<Rightarrow> bool" where
  "is_Build (Build g c) = True"
| "is_Build e = False"

fun is_Test :: "event \<Rightarrow> bool" where
  "is_Test (Test ts) = True"
| "is_Test e = False"

fun is_Run :: "event \<Rightarrow> bool" where
  "is_Run (Run g opts) = True"
| "is_Run e = False"

fun is_PrintExecutionGraph :: "event \<Rightarrow> bool" where
  "is_PrintExecutionGraph (PrintExecutionGraph g j) = True"
| "is_PrintExecutionGraph e = False"

fun is_PrintExecutedAction :: "event \<Rightarrow> bool" where
  "is_PrintExecutedAction (PrintExecutedAction a b d) = True"
| "is_PrintExecutedAction e = False"

definition nl :: char where
  "nl = CHR 0x0A"

text \<open>A number inside a template literal is written in decimal.\<close>

definition digit :: "nat \<Rightarrow> char" where
  "digit d = char_of (d + 48)"

fun decimal :: "nat \<Rightarrow> string" where
  "decimal n = (if 10 \<le> n then decimal (n div 10) @ [digit (n mod 10)] else [digit n])"

declare decimal.simps [simp del]

subsection \<open>The option checks of --include-deps and --include-dependents\<close>

record run_argv =
  projectDir :: string
  dryRun :: "bool option"
  runTests :: "bool option"
  actionRetryLimit :: int
  actions :: "string list option"
  credentials :: string
  fullRefresh :: bool
  includeDeps :: "bool option"
  includeDependents :: "bool option"
  json :: bool
  timeout :: "int option"
  tags :: "string list option"
  jobPrefix :: "string option"





subsection \<open>The run command\<close>

text \<open>
  \<open>actionsByName\<close> is a \<open>Map\<close> filled with \<open>set\<close> in the order of the graph's
  actions: a later action of the same readable name replaces the earlier one.
\<close>

definition actionsByName_of ::
  "(target \<Rightarrow> string) \<Rightarrow> execution_graph \<Rightarrow> (string \<times> execution_action) list" where
  "actionsByName_of readable executionGraph =
     foldl (\<lambda>m action. AList.update (readable (ea_target action)) action m) []
       (eg_actions executionGraph)"

text \<open>
  \<open>printExecutedGraph\<close>: both filters run over the whole list before the first
  action is printed; every action they keep is printed and its name recorded.
\<close>

definition printExecutedGraph ::
  "(target \<Rightarrow> string) \<Rightarrow> (string \<times> execution_action) list \<Rightarrow> bool option \<Rightarrow>
   string list \<Rightarrow> run_result \<Rightarrow> string list \<times> event list" where
  "printExecutedGraph readable actionsByName dry alreadyPrintedActions executedGraph =
     (let shown =
        filter (\<lambda>executedAction. readable (ar_target executedAction) \<notin> set alreadyPrintedActions)
          (filter (\<lambda>actionResult. ar_status actionResult \<noteq> RUNNING)
             (rr_actions executedGraph))
      in (alreadyPrintedActions @ map (\<lambda>a. readable (ar_target a)) shown,
          map (\<lambda>a. PrintExecutedAction a (map_of actionsByName (readable (ar_target a))) dry)
            shown))"

fun printChanges ::
  "(target \<Rightarrow> string) \<Rightarrow> (string \<times> execution_action) list \<Rightarrow> bool option \<Rightarrow>
   string list \<Rightarrow> run_result list \<Rightarrow> string list \<times> event list" where
  "printChanges readable actionsByName dry printed [] = (printed, [])"
| "printChanges readable actionsByName dry printed (g # gs) =
     (let (printed1, t1) = printExecutedGraph readable actionsByName dry printed g;
          (printed2, t2) = printChanges readable actionsByName dry printed1 gs
      in (printed2, t1 @ t2))"

text \<open>From \<open>let bigqueryOptions\<close> to the end of \<open>processFn\<close>.\<close>

definition bigqueryOptions_of :: "run_argv \<Rightarrow> bigquery_options" where
  "bigqueryOptions_of argv =
     \<lparr> bq_actionRetryLimit = actionRetryLimit argv,
       bq_dryRun = (if truthy_bool (dryRun argv) then dryRun argv else None),
       bq_jobPrefix = (if truthy_string (jobPrefix argv) then jobPrefix argv else None) \<rparr>"

definition run_dispatch ::
  "collaborators \<Rightarrow> run_argv \<Rightarrow> execution_graph \<Rightarrow> ret \<times> event list" where
  "run_dispatch env argv executionGraph =
     (let bigqueryOptions = bigqueryOptions_of argv;
          actionsByName = actionsByName_of (targetAsReadableString env) executionGraph
      in if length actionsByName = 0 then (Code 0, [Print (''No actions to run.'' @ [nl])])
         else
           let announce =
                 (if truthy_bool (dryRun argv)
                  then Print ''Dry running (no changes to the warehouse will be applied)...''
                  else Print (''Running...'' @ [nl]));
               runner = run env executionGraph bigqueryOptions;
               (printed, shown) =
                 printChanges (targetAsReadableString env) actionsByName (dryRun argv) []
                   (changes runner);
               runResult = result runner;
               (printed', shown') =
                 printExecutedGraph (targetAsReadableString env) actionsByName (dryRun argv)
                   printed runResult
           in (Code (if rr_status runResult = SUCCESSFUL then 0 else 1),
               [announce, Run executionGraph bigqueryOptions, OnSigintCancel, OnChange]
                 @ shown @ [AwaitResult] @ shown'))"

text \<open>The \<open>--run-tests\<close> gate, then the dispatch.\<close>

definition run_tests_gate ::
  "collaborators \<Rightarrow> run_argv \<Rightarrow> compiled_graph \<Rightarrow> execution_graph \<Rightarrow> ret \<times> event list" where
  "run_tests_gate env argv compiledGraph executionGraph =
     (if truthy_bool (runTests argv) then
        let testResults = test env (tests compiledGraph);
            t = [Print (''Running '' @ decimal (length (tests compiledGraph))
                          @ '' unit tests...'' @ [nl]),
                 Test (tests compiledGraph)]
                @ map PrintTestResult testResults
        in if list_ex (\<lambda>testResult. \<not> successful testResult) testResults
           then (Code 1, t @ [PrintError (nl # ''Unit tests did not pass; aborting run.'')])
           else
             let (r, t') = run_dispatch env argv executionGraph
             in (r, t @ [PrintSuccess (''Unit tests completed successfully.'' @ [nl])] @ t')
      else run_dispatch env argv executionGraph)"

definition compile_args_of :: "string \<Rightarrow> int option \<Rightarrow> compile_args" where
  "compile_args_of dir tmo =
     \<lparr> ca_projectDir = dir,
       ca_timeoutMillis = (if truthy_number tmo then tmo else None) \<rparr>"

definition run_config_of :: "run_argv \<Rightarrow> run_config" where
  "run_config_of argv =
     \<lparr> rc_fullRefresh = fullRefresh argv,
       rc_actions = actions argv,
       rc_includeDependencies = includeDeps argv,
       rc_includeDependents = includeDependents argv,
       rc_tags = tags argv \<rparr>"

text \<open>
  \<open>processFn\<close> of the run command: its return value and what it did, in order.
  The project-configuration overrides handed to \<open>compile\<close> are left out.
\<close>

definition run_processFn :: "collaborators \<Rightarrow> run_argv \<Rightarrow> ret \<times> event list" where
  "run_processFn env argv =
     (if json argv \<and> \<not> truthy_bool (dryRun argv) then
        (Undefined,
         [Print (''For execution, the --json option is only supported if the ''
                   @ ''--dry-run option is enabled'')])
      else
        let t0 = (if \<not> json argv then [Print (''Compiling...'' @ [nl])] else []);
            args = compile_args_of (projectDir argv) (timeout argv);
            compiledGraph = compile env args;
            t1 = t0 @ [Compile args]
        in if compiledGraphHasErrors compiledGraph then
             (Code 1, t1 @ [PrintCompiledGraphErrors (graphErrors compiledGraph)])
           else
             let t2 = t1
                   @ (if \<not> json argv then [PrintSuccess (''Compiled successfully.'' @ [nl])]
                      else [])
                   @ [CredentialsRead (projectDir argv) (credentials argv)];
                 cfg = run_config_of argv;
                 executionGraph = build env compiledGraph cfg;
                 t3 = t2 @ [Build compiledGraph cfg]
             in if truthy_bool (dryRun argv) \<and> json argv then
                  (Undefined, t3 @ [PrintExecutionGraph executionGraph (json argv)])
                else
                  let (r, t) = run_tests_gate env argv compiledGraph executionGraph
                  in (r, t3 @ t))"



subsection \<open>The test command\<close>

record test_argv =
  t_projectDir :: string
  t_credentials :: string
  t_timeout :: "int option"

definition test_processFn :: "collaborators \<Rightarrow> test_argv \<Rightarrow> ret \<times> event list" where
  "test_processFn env argv =
     (let args = compile_args_of (t_projectDir argv) (t_timeout argv);
          compiledGraph = compile env args;
          t1 = [Print (''Compiling...'' @ [nl]), Compile args]
      in if compiledGraphHasErrors compiledGraph then
           (Code 1, t1 @ [PrintCompiledGraphErrors (graphErrors compiledGraph)])
         else
           let t2 = t1 @ [PrintSuccess (''Compiled successfully.'' @ [nl]),
                          CredentialsRead (t_projectDir argv) (t_credentials argv)]
           in if length (tests compiledGraph) = 0 then
                (Code 1, t2 @ [PrintError ''No unit tests found.''])
              else
                let testResults = test env (tests compiledGraph)
                in (Code (if list_all (\<lambda>testResult. successful testResult) testResults
                          then 0 else 1),
                    t2 @ [Print (''Running '' @ decimal (length (tests compiledGraph))
                                   @ '' unit tests...'' @ [nl]),
                          Test (tests compiledGraph)]
                       @ map PrintTestResult testResults))"

subsection \<open>Reading a trace\<close>

text \<open>
  The calls a command makes to its collaborators, in order: compile, build,
  test and run. The names below stand for the local variables of \<open>processFn\<close>.
\<close>

definition is_call :: "event \<Rightarrow> bool" where
  "is_call e = (is_Compile e \<or> is_Build e \<or> is_Test e \<or> is_Run e)"

definition calls :: "event list \<Rightarrow> event list" where
  "calls t = filter is_call t"

definition compiledGraph_of :: "collaborators \<Rightarrow> run_argv \<Rightarrow> compiled_graph" where
  "compiledGraph_of env argv = compile env (compile_args_of (projectDir argv) (timeout argv))"

definition executionGraph_of :: "collaborators \<Rightarrow> run_argv \<Rightarrow> execution_graph" where
  "executionGraph_of env argv = build env (compiledGraph_of env argv) (run_config_of argv)"

definition runResult_of :: "collaborators \<Rightarrow> run_argv \<Rightarrow> run_result" where
  "runResult_of env argv = result (run env (executionGraph_of env argv) (bigqueryOptions_of argv))"

definition some_test_fails :: "collaborators \<Rightarrow> run_argv \<Rightarrow> bool" where
  "some_test_fails env argv =
     list_ex (\<lambda>testResult. \<not> successful testResult) (test env (tests (compiledGraph_of env argv)))"




subsection \<open>An example project\<close>

text \<open>
  The value the examples pass for \<open>targetAsReadableString\<close> (df/core/targets,
  not among the sources, and a parameter of the command line here): the
  readable identity \<open>database.schema.name\<close>, as the specification writes it.
\<close>

definition example_readable :: "target \<Rightarrow> string" where
  "example_readable t = database t @ ''.'' @ schema t @ ''.'' @ name t"

text \<open>
  Collaborators for the examples: compilation reports the given errors and one
  unit test, the build selects the given actions, every unit test passes or
  fails as given, and the run ends with the given status for the run and for
  each of its actions.
\<close>

definition example_test :: unit_test where
  "example_test = \<lparr> test_name = ''t1'', test_query = ''select 1'', expected_output_query = ''select 1'' \<rparr>"

definition example_action :: execution_action where
  "example_action =
     \<lparr> ea_target = \<lparr> database = ''db'', schema = ''s'', name = ''t'' \<rparr>,
       ea_tasks = [''create or replace table t as select 1''] \<rparr>"

definition example_env ::
  "compilation_error list \<Rightarrow> bool \<Rightarrow> execution_action list \<Rightarrow> ExecutionStatus \<Rightarrow> collaborators" where
  "example_env errs pass acts st =
     \<lparr> compile = (\<lambda>args. \<lparr> tests = [example_test], graphErrors = \<lparr> compilationErrors = errs \<rparr> \<rparr>),
       build = (\<lambda>g cfg. \<lparr> eg_actions = acts \<rparr>),
       test = (\<lambda>ts. map (\<lambda>t. \<lparr> tr_name = test_name t, successful = pass \<rparr>) ts),
       run = (\<lambda>g opts.
          \<lparr> changes = [],
            result = \<lparr> rr_status = st,
                       rr_actions = map (\<lambda>a. \<lparr> ar_target = ea_target a, ar_status = st \<rparr>)
                                      (eg_actions g) \<rparr> \<rparr>),
       targetAsReadableString = example_readable \<rparr>"


definition example_error :: compilation_error where
  "example_error = \<lparr> file_name = ''definitions/a.sqlx'', message = ''Duplicate action name'' \<rparr>"

text \<open>\<open>dataform run\<close> with no option: every option at its default.\<close>

definition example_argv :: run_argv where
  "example_argv =
     \<lparr> projectDir = ''.'', dryRun = None, runTests = None, actionRetryLimit = 0,
       actions = None, credentials = ''.df-credentials.json'', fullRefresh = False,
       includeDeps = None, includeDependents = None, json = False, timeout = None,
       tags = None, jobPrefix = None \<rparr>"

text \<open>\<open>dataform test\<close> with no option.\<close>

definition example_test_argv :: test_argv where
  "example_test_argv =
     \<lparr> t_projectDir = ''.'', t_credentials = ''.df-credentials.json'', t_timeout = None \<rparr>"

section \<open>The builder and the runner (df/cli/api), from the specification\<close>

text \<open>
  The protos give the enums \<open>TableType\<close>, \<open>OnSchemaChange\<close> and \<open>LoadMode\<close> and
  the \<open>LoadConfiguration\<close> message, whose \<open>maximum\<close>, \<open>unique\<close> and \<open>automatic\<close>
  modes carry a column name.
\<close>

datatype TableType = UNKNOWN_TYPE | TABLE | INCREMENTAL | VIEW

datatype OnSchemaChange = IGNORE | FAIL | EXTEND | SYNCHRONIZE

datatype LoadConfiguration =
    Replace | Append | Maximum string | Unique string | Automatic string

datatype LoadMode = REPLACE_TABLE | APPEND | MAXIMUM | UNIQUE

text \<open>The action variants of the specification's data model.\<close>

datatype action_kind =
    Table TableType
  | Operation
  | Assertion
  | Declaration
  | Notebook
  | DataPreparation LoadConfiguration

subsection \<open>Retries\<close>

text \<open>
  Modelled from the spec: the runner's retry classification is not among the
  sources. The specification classifies as idempotent the full rebuilds: TABLE,
  VIEW, full-refresh INCREMENTAL and a DataPreparation with load mode
  \<open>replace\<close>; incremental merges, the other loads, operations and assertions
  are not.
\<close>

fun idempotent :: "bool \<Rightarrow> action_kind \<Rightarrow> bool" where
  "idempotent refresh (Table TABLE) = True"
| "idempotent refresh (Table VIEW) = True"
| "idempotent refresh (Table INCREMENTAL) = refresh"
| "idempotent refresh (DataPreparation Replace) = True"
| "idempotent refresh k = False"

text \<open>
  Modelled from the spec: the runner's attempt loop is not among the sources.
  By the specification a failed attempt is followed by a retry of the same
  statements while retries are left, and the action is marked FAILED when none
  is. \<open>succeeds i\<close> says whether the adapter reports success for attempt \<open>i\<close>
  (the first attempt is attempt 0); the result is the terminal status and the
  number of retries made.
\<close>

fun attempts :: "(nat \<Rightarrow> bool) \<Rightarrow> nat \<Rightarrow> nat \<Rightarrow> ExecutionStatus \<times> nat" where
  "attempts succeeds 0 retried = (if succeeds retried then SUCCESSFUL else FAILED, retried)"
| "attempts succeeds (Suc left) retried =
     (if succeeds retried then (SUCCESSFUL, retried)
      else attempts succeeds left (Suc retried))"

text \<open>
  Modelled from the spec: an idempotent action may be retried up to
  \<open>actionRetryLimit\<close> times, any other action never, whatever the limit. The
  limit is the one the command line puts into the \<open>bigquery\<close> options.
\<close>

definition retry_budget :: "int \<Rightarrow> bool \<Rightarrow> action_kind \<Rightarrow> nat" where
  "retry_budget limit refresh k = (if idempotent refresh k then nat limit else 0)"

definition executeAction ::
  "bigquery_options \<Rightarrow> bool \<Rightarrow> action_kind \<Rightarrow> (nat \<Rightarrow> bool) \<Rightarrow> ExecutionStatus \<times> nat" where
  "executeAction opts refresh k succeeds =
     attempts succeeds (retry_budget (bq_actionRetryLimit opts) refresh k) 0"

subsection \<open>Schema changes before an incremental merge\<close>

text \<open>
  Modelled from the spec: the builder's reconciliation of the target's columns
  with the query's is not among the sources (the protos give the enum alone).
  By the specification IGNORE performs no reconciliation; FAIL compares the
  two column sets and aborts the action if they differ; EXTEND adds the new
  columns and forbids removed or renamed ones; SYNCHRONIZE adds the new columns
  and drops the columns absent from the query result. A renamed column shows as
  one column removed and one added.
\<close>

datatype ddl = AddColumn string | DropColumn string

definition reconcile :: "OnSchemaChange \<Rightarrow> string list \<Rightarrow> string list \<Rightarrow> string + ddl list" where
  "reconcile policy target_columns query_columns =
     (case policy of
        IGNORE \<Rightarrow> Inr []
      | FAIL \<Rightarrow>
          if set target_columns \<noteq> set query_columns then Inl ''schema mismatch''
          else Inr []
      | EXTEND \<Rightarrow>
          if list_ex (\<lambda>c. c \<notin> set query_columns) target_columns
          then Inl ''column removed or renamed''
          else Inr (map AddColumn (filter (\<lambda>c. c \<notin> set target_columns) query_columns))
      | SYNCHRONIZE \<Rightarrow>
          Inr (map AddColumn (filter (\<lambda>c. c \<notin> set target_columns) query_columns)
               @ map DropColumn (filter (\<lambda>c. c \<notin> set query_columns) target_columns)))"

text \<open>
  Modelled from the spec: what a reconciliation statement does to the target's
  column list.
\<close>

fun apply_ddl :: "string list \<Rightarrow> ddl \<Rightarrow> string list" where
  "apply_ddl columns (AddColumn c) = columns @ [c]"
| "apply_ddl columns (DropColumn c) = removeAll c columns"

definition alter_table :: "string list \<Rightarrow> ddl list \<Rightarrow> string list" where
  "alter_table columns ds = foldl apply_ddl columns ds"

text \<open>
  Modelled from the spec: the statements of an incremental merge are the
  reconciliation's, then the merge; an aborted reconciliation issues none.
\<close>

datatype statement = AlterTable ddl | Merge

definition incremental_merge ::
  "OnSchemaChange \<Rightarrow> string list \<Rightarrow> string list \<Rightarrow> string + statement list" where
  "incremental_merge policy target_columns query_columns =
     (case reconcile policy target_columns query_columns of
        Inl e \<Rightarrow> Inl e
      | Inr ds \<Rightarrow> Inr (map AlterTable ds @ [Merge]))"

subsection \<open>Load modes of a data preparation\<close>

text \<open>
  Modelled from the spec: the builder's resolution of the configured load mode
  is not among the sources. The four modes of the \<open>LoadMode\<close> enum stay as they
  are, with their column; \<open>automatic\<close> becomes \<open>maximum\<close> when an ordering column
  is known (its column name is not empty) and \<open>append\<close> otherwise.
\<close>

definition resolve_load :: "LoadConfiguration \<Rightarrow> LoadMode \<times> string" where
  "resolve_load load =
     (case load of
        Replace \<Rightarrow> (REPLACE_TABLE, [])
      | Append \<Rightarrow> (APPEND, [])
      | Maximum c \<Rightarrow> (MAXIMUM, c)
      | Unique c \<Rightarrow> (UNIQUE, c)
      | Automatic c \<Rightarrow> if c \<noteq> [] then (MAXIMUM, c) else (APPEND, []))"

text \<open>
  Modelled from the spec: the rows of the target after a load. \<open>replace\<close>
  overwrites the target, \<open>append\<close> inserts every row, \<open>maximum\<close> inserts the rows
  whose value in the configured column exceeds the current maximum of the
  target (every row when the target is empty and has none), \<open>unique\<close> inserts
  the rows whose value in the configured column is not yet in the target.
  \<open>cell c r\<close> reads column \<open>c\<close> of row \<open>r\<close>.
\<close>

definition current_max :: "'v::linorder list \<Rightarrow> 'v option" where
  "current_max vs = (case vs of [] \<Rightarrow> None | v # rest \<Rightarrow> Some (fold max rest v))"

fun load_rows ::
  "(string \<Rightarrow> 'r \<Rightarrow> 'v::linorder) \<Rightarrow> LoadMode \<times> string \<Rightarrow> 'r list \<Rightarrow> 'r list \<Rightarrow> 'r list" where
  "load_rows cell (REPLACE_TABLE, c) target_rows rows = rows"
| "load_rows cell (APPEND, c) target_rows rows = target_rows @ rows"
| "load_rows cell (MAXIMUM, c) target_rows rows =
     target_rows @
       (case current_max (map (cell c) target_rows) of
          None \<Rightarrow> rows
        | Some m \<Rightarrow> filter (\<lambda>r. m < cell c r) rows)"
| "load_rows cell (UNIQUE, c) target_rows rows =
     target_rows @ filter (\<lambda>r. cell c r \<notin> set (map (cell c) target_rows)) rows"

text \<open>Rows for the examples: a pair of an \<open>id\<close> and a \<open>ts\<close> column.\<close>

definition example_cell :: "string \<Rightarrow> int \<times> int \<Rightarrow> int" where
  "example_cell c r = (if c = ''id'' then fst r else snd r)"

section \<open>Properties\<close>

text \<open>The definitions an example unfolds.\<close>

lemmas ex_defs = example_argv_def example_env_def example_action_def example_test_def
  truthy_bool_def truthy_array_def truthy_string_def truthy_number_def
  compiledGraph_of_def executionGraph_of_def runResult_of_def some_test_fails_def
  compiledGraphHasErrors_def example_readable_def compile_args_of_def run_config_of_def bigqueryOptions_of_def

subsection \<open>Splitting on commas\<close>

lemma js_split_not_Nil: "js_split sep s \<noteq> []"
  by (induction s) (auto split: list.splits)

lemma js_split_no_sep: "sep \<notin> set s \<Longrightarrow> js_split sep s = [s]"
  by (induction s) auto

lemma js_split_append_sep:
  "js_split sep (a @ sep # b) = js_split sep a @ js_split sep b"
proof (induction a)
  case Nil
  show ?case by simp
next
  case (Cons c cs)
  obtain w ws where ws: "js_split sep cs = w # ws"
    using js_split_not_Nil [of sep cs] by (cases "js_split sep cs") auto
  show ?case using Cons ws by simp
qed

lemma js_split_join:
  "xs \<noteq> [] \<Longrightarrow> js_split sep (js_join sep xs) = concat (map (js_split sep) xs)"
proof (induction sep xs rule: js_join.induct)
  case (1 sep)
  then show ?case by simp
next
  case (2 sep x)
  show ?case by simp
next
  case (3 sep x y ys)
  then show ?case by (simp add: js_split_append_sep)
qed

lemma concat_split_no_sep:
  "\<forall>p\<in>set xs. sep \<notin> set p \<Longrightarrow> concat (map (js_split sep) xs) = xs"
  by (induction xs) (auto simp: js_split_no_sep)

text \<open>
  C8. Every element of a supplied --actions or --tags list is split on commas
  and the pieces are flattened into one list, so one comma-separated argument
  (\<open>--actions a,b\<close>) and the same parts given one by one
  (\<open>--actions a --actions b\<close>) are coerced to the same pattern list; when no
  part holds a comma, that list is the list of the parts.
\<close>

theorem coerce_comma_separated:
  "(actions_coerce (Some raw) = Inr (concat (map (js_split CHR '','') raw)) \<and>
    tags_coerce (Some raw) = Inr (concat (map (js_split CHR '','') raw))) \<and>
   (parts \<noteq> [] \<longrightarrow>
      actions_coerce (Some [js_join CHR '','' parts]) = actions_coerce (Some parts) \<and>
      tags_coerce (Some [js_join CHR '','' parts]) = tags_coerce (Some parts)) \<and>
   (parts \<noteq> [] \<and> (\<forall>p\<in>set parts. CHR '','' \<notin> set p) \<longrightarrow>
      actions_coerce (Some [js_join CHR '','' parts]) = Inr parts \<and>
      tags_coerce (Some [js_join CHR '','' parts]) = Inr parts)"
  by (simp add: actions_coerce_def tags_coerce_def js_split_join concat_split_no_sep)

theorem coerce_comma_separated_witness:
  "[''a'', ''b''] \<noteq> [] \<and> CHR '','' \<notin> set ''a'' \<and> CHR '','' \<notin> set ''b'' \<and>
   js_join CHR '','' [''a'', ''b''] = ''a,b'' \<and>
   actions_coerce (Some [''a,b'']) = Inr [''a'', ''b''] \<and>
   actions_coerce (Some [''a'', ''b'']) = Inr [''a'', ''b''] \<and>
   tags_coerce (Some [''a,b'']) = tags_coerce (Some [''a'', ''b''])"
  using coerce_comma_separated [of "[''a'', ''b'']" "[''a'', ''b'']"]
  by simp

subsection \<open>The run command, stage by stage\<close>

lemma calls_simps [simp]:
  "calls [] = []"
  "calls (t @ u) = calls t @ calls u"
  "calls (Print s # t) = calls t"
  "calls (PrintSuccess s # t) = calls t"
  "calls (PrintError s # t) = calls t"
  "calls (Compile a # t) = Compile a # calls t"
  "calls (PrintCompiledGraphErrors ge # t) = calls t"
  "calls (CredentialsRead dir cr # t) = calls t"
  "calls (Build cg cfg # t) = Build cg cfg # calls t"
  "calls (PrintExecutionGraph eg1 j # t) = calls t"
  "calls (Test ts # t) = Test ts # calls t"
  "calls (PrintTestResult r # t) = calls t"
  "calls (Run eg opts # t) = Run eg opts # calls t"
  "calls (OnSigintCancel # t) = calls t"
  "calls (OnChange # t) = calls t"
  "calls (AwaitResult # t) = calls t"
  "calls (PrintExecutedAction ar ea dr # t) = calls t"
  by (simp_all add: calls_def is_call_def)

lemma calls_map_PrintTestResult [simp]: "calls (map PrintTestResult rs) = []"
  by (induction rs) simp_all

lemma calls_printExecutedGraph [simp]:
  "calls (snd (printExecutedGraph readable m dry printed g)) = []"
proof -
  have "calls (map (\<lambda>a. PrintExecutedAction a (f a) dry) xs) = []" for f xs
    by (induction xs) simp_all
  then show ?thesis by (simp add: printExecutedGraph_def Let_def)
qed

lemma calls_printChanges [simp]:
  "calls (snd (printChanges readable m dry printed gs)) = []"
proof (induction gs arbitrary: printed)
  case Nil
  show ?case by simp
next
  case (Cons g gs)
  obtain p1 t1 where h1: "printExecutedGraph readable m dry printed g = (p1, t1)"
    by (cases "printExecutedGraph readable m dry printed g")
  obtain p2 t2 where h2: "printChanges readable m dry p1 gs = (p2, t2)"
    by (cases "printChanges readable m dry p1 gs")
  have c1: "calls t1 = []"
    using calls_printExecutedGraph [of readable m dry printed g] h1 by simp
  have c2: "calls t2 = []"
    using Cons [of p1] h2 by simp
  show ?case by (simp add: h1 h2 c1 c2)
qed

lemma update_not_Nil: "AList.update k v m \<noteq> []"
  by (cases m) auto

lemma foldl_update_not_Nil:
  "m \<noteq> [] \<or> xs \<noteq> [] \<Longrightarrow> foldl (\<lambda>m a. AList.update (k a) a m) m xs \<noteq> []"
  by (induction xs arbitrary: m) (auto simp: update_not_Nil)

lemma actionsByName_empty:
  "(actionsByName_of readable g = []) = (eg_actions g = [])"
  using foldl_update_not_Nil [of "[]" "eg_actions g" "\<lambda>a. readable (ea_target a)"]
  by (auto simp: actionsByName_of_def)

lemma run_dispatch_empty:
  "eg_actions g = [] \<Longrightarrow>
   run_dispatch env argv g = (Code 0, [Print (''No actions to run.'' @ [nl])])"
  by (simp add: run_dispatch_def Let_def actionsByName_empty)

lemma filter_peg_printExecutedGraph [simp]:
  "filter is_PrintExecutionGraph (snd (printExecutedGraph readable m dry printed g)) = []"
proof -
  have "filter is_PrintExecutionGraph (map (\<lambda>a. PrintExecutedAction a (f a) dry) xs) = []"
    for f xs
    by (induction xs) simp_all
  then show ?thesis by (simp add: printExecutedGraph_def Let_def)
qed

lemma filter_peg_printChanges [simp]:
  "filter is_PrintExecutionGraph (snd (printChanges readable m dry printed gs)) = []"
proof (induction gs arbitrary: printed)
  case Nil
  show ?case by simp
next
  case (Cons g gs)
  obtain p1 t1 where h1: "printExecutedGraph readable m dry printed g = (p1, t1)"
    by (cases "printExecutedGraph readable m dry printed g")
  obtain p2 t2 where h2: "printChanges readable m dry p1 gs = (p2, t2)"
    by (cases "printChanges readable m dry p1 gs")
  have c1: "filter is_PrintExecutionGraph t1 = []"
    using filter_peg_printExecutedGraph [of readable m dry printed g] h1 by simp
  have c2: "filter is_PrintExecutionGraph t2 = []"
    using Cons [of p1] h2 by simp
  show ?case by (simp add: h1 h2 c1 c2)
qed

lemma run_dispatch_nonempty:
  assumes "eg_actions g \<noteq> []"
  shows "fst (run_dispatch env argv g) =
           Code (if rr_status (result (run env g (bigqueryOptions_of argv))) = SUCCESSFUL
                 then 0 else 1)"
    and "calls (snd (run_dispatch env argv g)) = [Run g (bigqueryOptions_of argv)]"
    and "filter is_PrintExecutionGraph (snd (run_dispatch env argv g)) = []"
proof -
  let ?r = "targetAsReadableString env"
  let ?m = "actionsByName_of ?r g"
  let ?runner = "run env g (bigqueryOptions_of argv)"
  obtain p1 t1 where h1: "printChanges ?r ?m (dryRun argv) [] (changes ?runner) = (p1, t1)"
    by (cases "printChanges ?r ?m (dryRun argv) [] (changes ?runner)")
  obtain p2 t2 where h2: "printExecutedGraph ?r ?m (dryRun argv) p1 (result ?runner) = (p2, t2)"
    by (cases "printExecutedGraph ?r ?m (dryRun argv) p1 (result ?runner)")
  have c1: "calls t1 = []" "filter is_PrintExecutionGraph t1 = []"
    using calls_printChanges [of ?r ?m "dryRun argv" "[]" "changes ?runner"]
      filter_peg_printChanges [of ?r ?m "dryRun argv" "[]" "changes ?runner"] h1 by simp_all
  have c2: "calls t2 = []" "filter is_PrintExecutionGraph t2 = []"
    using calls_printExecutedGraph [of ?r ?m "dryRun argv" p1 "result ?runner"]
      filter_peg_printExecutedGraph [of ?r ?m "dryRun argv" p1 "result ?runner"] h2 by simp_all
  have ne: "?m \<noteq> []" using assms by (simp add: actionsByName_empty)
  show "fst (run_dispatch env argv g) =
           Code (if rr_status (result ?runner) = SUCCESSFUL then 0 else 1)"
    using ne by (simp add: run_dispatch_def Let_def h1 h2)
  show "calls (snd (run_dispatch env argv g)) = [Run g (bigqueryOptions_of argv)]"
    using ne by (simp add: run_dispatch_def Let_def h1 h2 c1 c2)
  show "filter is_PrintExecutionGraph (snd (run_dispatch env argv g)) = []"
    using ne by (simp add: run_dispatch_def Let_def h1 h2 c1 c2)
qed

lemma run_tests_gate_skip:
  "\<not> truthy_bool (runTests argv) \<Longrightarrow>
   run_tests_gate env argv cg eg = run_dispatch env argv eg"
  by (simp add: run_tests_gate_def)

lemma run_tests_gate_fail:
  assumes "truthy_bool (runTests argv)"
    and "list_ex (\<lambda>testResult. \<not> successful testResult) (test env (tests cg))"
  shows "fst (run_tests_gate env argv cg eg) = Code 1"
    and "calls (snd (run_tests_gate env argv cg eg)) = [Test (tests cg)]"
    and "filter is_PrintExecutionGraph (snd (run_tests_gate env argv cg eg)) = []"
proof -
  have "filter is_PrintExecutionGraph (map PrintTestResult rs) = []" for rs
    by (induction rs) simp_all
  then show "filter is_PrintExecutionGraph (snd (run_tests_gate env argv cg eg)) = []"
    using assms by (simp add: run_tests_gate_def Let_def)
  show "fst (run_tests_gate env argv cg eg) = Code 1"
    using assms by (simp add: run_tests_gate_def Let_def)
  show "calls (snd (run_tests_gate env argv cg eg)) = [Test (tests cg)]"
    using assms by (simp add: run_tests_gate_def Let_def)
qed

lemma run_tests_gate_pass:
  assumes "truthy_bool (runTests argv)"
    and "\<not> list_ex (\<lambda>testResult. \<not> successful testResult) (test env (tests cg))"
  shows "fst (run_tests_gate env argv cg eg) = fst (run_dispatch env argv eg)"
    and "calls (snd (run_tests_gate env argv cg eg)) =
           Test (tests cg) # calls (snd (run_dispatch env argv eg))"
    and "filter is_PrintExecutionGraph (snd (run_tests_gate env argv cg eg)) =
           filter is_PrintExecutionGraph (snd (run_dispatch env argv eg))"
proof -
  obtain r t where h: "run_dispatch env argv eg = (r, t)"
    by (cases "run_dispatch env argv eg")
  have m: "filter is_PrintExecutionGraph (map PrintTestResult rs) = []" for rs
    by (induction rs) simp_all
  show "fst (run_tests_gate env argv cg eg) = fst (run_dispatch env argv eg)"
    using assms by (simp add: run_tests_gate_def Let_def h)
  show "calls (snd (run_tests_gate env argv cg eg)) =
           Test (tests cg) # calls (snd (run_dispatch env argv eg))"
    using assms by (simp add: run_tests_gate_def Let_def h)
  show "filter is_PrintExecutionGraph (snd (run_tests_gate env argv cg eg)) =
           filter is_PrintExecutionGraph (snd (run_dispatch env argv eg))"
    using assms by (simp add: run_tests_gate_def Let_def h m)
qed

text \<open>The run command past compilation, for an invocation without --json.\<close>

lemma run_processFn_plain:
  assumes "\<not> json argv" and "\<not> compiledGraphHasErrors (compiledGraph_of env argv)"
  shows "fst (run_processFn env argv) =
           fst (run_tests_gate env argv (compiledGraph_of env argv) (executionGraph_of env argv))"
    and "calls (snd (run_processFn env argv)) =
           Compile (compile_args_of (projectDir argv) (timeout argv))
           # Build (compiledGraph_of env argv) (run_config_of argv)
           # calls (snd (run_tests_gate env argv (compiledGraph_of env argv)
                           (executionGraph_of env argv)))"
    and "filter is_PrintExecutionGraph (snd (run_processFn env argv)) =
           filter is_PrintExecutionGraph
             (snd (run_tests_gate env argv (compiledGraph_of env argv)
                     (executionGraph_of env argv)))"
proof -
  obtain r t where h:
    "run_tests_gate env argv (compiledGraph_of env argv) (executionGraph_of env argv) = (r, t)"
    by (cases "run_tests_gate env argv (compiledGraph_of env argv) (executionGraph_of env argv)")
  have h': "run_tests_gate env argv (compile env (compile_args_of (projectDir argv) (timeout argv)))
              (build env (compile env (compile_args_of (projectDir argv) (timeout argv)))
                 (run_config_of argv)) = (r, t)"
    using h by (simp add: compiledGraph_of_def executionGraph_of_def)
  have e: "\<not> compiledGraphHasErrors (compile env (compile_args_of (projectDir argv) (timeout argv)))"
    using assms(2) by (simp add: compiledGraph_of_def)
  show "fst (run_processFn env argv) =
           fst (run_tests_gate env argv (compiledGraph_of env argv) (executionGraph_of env argv))"
    using assms(1) e by (simp add: run_processFn_def Let_def h' compiledGraph_of_def executionGraph_of_def)
  show "calls (snd (run_processFn env argv)) =
           Compile (compile_args_of (projectDir argv) (timeout argv))
           # Build (compiledGraph_of env argv) (run_config_of argv)
           # calls (snd (run_tests_gate env argv (compiledGraph_of env argv)
                           (executionGraph_of env argv)))"
    using assms(1) e by (simp add: run_processFn_def Let_def h' compiledGraph_of_def executionGraph_of_def)
  show "filter is_PrintExecutionGraph (snd (run_processFn env argv)) =
           filter is_PrintExecutionGraph
             (snd (run_tests_gate env argv (compiledGraph_of env argv)
                     (executionGraph_of env argv)))"
    using assms(1) e by (simp add: run_processFn_def Let_def h' compiledGraph_of_def executionGraph_of_def)
qed

lemma run_processFn_errors:
  assumes "\<not> (json argv \<and> \<not> truthy_bool (dryRun argv))"
    and "compiledGraphHasErrors (compiledGraph_of env argv)"
  shows "run_processFn env argv =
           (Code 1,
            (if \<not> json argv then [Print (''Compiling...'' @ [nl])] else [])
            @ [Compile (compile_args_of (projectDir argv) (timeout argv)),
               PrintCompiledGraphErrors (graphErrors (compiledGraph_of env argv))])"
  using assms by (simp add: run_processFn_def Let_def compiledGraph_of_def)

lemma run_processFn_usage:
  assumes "json argv" and "\<not> truthy_bool (dryRun argv)"
  shows "run_processFn env argv =
           (Undefined,
            [Print (''For execution, the --json option is only supported if the ''
                   @ ''--dry-run option is enabled'')])"
  using assms by (simp add: run_processFn_def)

lemma run_processFn_dry_json:
  assumes "json argv" and "truthy_bool (dryRun argv)"
    and "\<not> compiledGraphHasErrors (compiledGraph_of env argv)"
  shows "run_processFn env argv =
           (Undefined,
            [Compile (compile_args_of (projectDir argv) (timeout argv)),
             CredentialsRead (projectDir argv) (credentials argv),
             Build (compiledGraph_of env argv) (run_config_of argv),
             PrintExecutionGraph (executionGraph_of env argv) True])"
  using assms
  by (simp add: run_processFn_def Let_def compiledGraph_of_def executionGraph_of_def)

subsection \<open>The --json guard\<close>

text \<open>
  C9. A run command with --json set and --dry-run not set prints the usage
  message and returns without a value: that message is all it does, and it calls
  none of compile, build, test and run.
\<close>

theorem run_json_without_dry_run:
  assumes "json argv" and "\<not> truthy_bool (dryRun argv)"
  shows "run_processFn env argv =
           (Undefined,
            [Print (''For execution, the --json option is only supported if the ''
                   @ ''--dry-run option is enabled'')])
         \<and> calls (snd (run_processFn env argv)) = []"
  using assms by (simp add: run_processFn_usage)

theorem run_json_without_dry_run_witness:
  "json (example_argv\<lparr>json := True\<rparr>) \<and>
   \<not> truthy_bool (dryRun (example_argv\<lparr>json := True\<rparr>)) \<and>
   fst (run_processFn (example_env [] True [example_action] SUCCESSFUL)
          (example_argv\<lparr>json := True\<rparr>)) = Undefined \<and>
   calls (snd (run_processFn (example_env [] True [example_action] SUCCESSFUL)
          (example_argv\<lparr>json := True\<rparr>))) = []"
  using run_json_without_dry_run
    [of "example_argv\<lparr>json := True\<rparr>" "example_env [] True [example_action] SUCCESSFUL"]
  by (simp add: example_argv_def truthy_bool_def)

subsection \<open>The value the run command returns\<close>

text \<open>
  C1, as the code has it. Without --json (a dry run or not) the run command
  returns 0 when the graph compiled without errors, the unit tests did not
  fail where --run-tests asked for them, and the execution graph is empty or
  the RunResult's status is SUCCESSFUL; it returns 1 otherwise. With --json it
  returns 1 on a compilation error of a dry run and returns without a value
  otherwise: after the usage message when --dry-run is not set, after printing
  the execution graph when it is.
\<close>

theorem run_exit_code:
  "(\<not> json argv \<longrightarrow>
      fst (run_processFn env argv) =
        Code (if \<not> compiledGraphHasErrors (compiledGraph_of env argv) \<and>
                 \<not> (truthy_bool (runTests argv) \<and> some_test_fails env argv) \<and>
                 (eg_actions (executionGraph_of env argv) = [] \<or>
                  rr_status (runResult_of env argv) = SUCCESSFUL)
              then 0 else 1)) \<and>
   (json argv \<longrightarrow>
      fst (run_processFn env argv) =
        (if truthy_bool (dryRun argv) \<and> compiledGraphHasErrors (compiledGraph_of env argv)
         then Code 1 else Undefined))"
proof (intro conjI impI)
  assume nj: "\<not> json argv"
  show "fst (run_processFn env argv) =
        Code (if \<not> compiledGraphHasErrors (compiledGraph_of env argv) \<and>
                 \<not> (truthy_bool (runTests argv) \<and> some_test_fails env argv) \<and>
                 (eg_actions (executionGraph_of env argv) = [] \<or>
                  rr_status (runResult_of env argv) = SUCCESSFUL)
              then 0 else 1)"
  proof (cases "compiledGraphHasErrors (compiledGraph_of env argv)")
    case True
    then show ?thesis using nj run_processFn_errors [of argv env] by simp
  next
    case noerr: False
    have d: "fst (run_dispatch env argv (executionGraph_of env argv)) =
             Code (if eg_actions (executionGraph_of env argv) = [] \<or>
                      rr_status (runResult_of env argv) = SUCCESSFUL then 0 else 1)"
    proof (cases "eg_actions (executionGraph_of env argv) = []")
      case True
      then show ?thesis by (simp add: run_dispatch_empty)
    next
      case False
      then show ?thesis by (simp add: run_dispatch_nonempty(1) runResult_of_def)
    qed
    show ?thesis
    proof (cases "truthy_bool (runTests argv)")
      case False
      then show ?thesis
        using nj noerr d by (simp add: run_processFn_plain(1) run_tests_gate_skip)
    next
      case rt: True
      show ?thesis
      proof (cases "some_test_fails env argv")
        case True
        then show ?thesis
          using nj noerr rt
          by (simp add: run_processFn_plain(1) run_tests_gate_fail(1) some_test_fails_def)
      next
        case False
        then show ?thesis
          using nj noerr rt d
          by (simp add: run_processFn_plain(1) run_tests_gate_pass(1) some_test_fails_def)
      qed
    qed
  qed
next
  assume j: "json argv"
  show "fst (run_processFn env argv) =
        (if truthy_bool (dryRun argv) \<and> compiledGraphHasErrors (compiledGraph_of env argv)
         then Code 1 else Undefined)"
  proof (cases "truthy_bool (dryRun argv)")
    case False
    then show ?thesis using j by (simp add: run_processFn_usage)
  next
    case dry: True
    show ?thesis
    proof (cases "compiledGraphHasErrors (compiledGraph_of env argv)")
      case True
      then show ?thesis using j dry run_processFn_errors [of argv env] by simp
    next
      case False
      then show ?thesis using j dry by (simp add: run_processFn_dry_json)
    qed
  qed
qed

theorem run_exit_code_witness:
  "\<not> json example_argv \<and>
   fst (run_processFn (example_env [] True [example_action] SUCCESSFUL) example_argv) = Code 0 \<and>
   fst (run_processFn (example_env [] True [example_action] FAILED) example_argv) = Code 1 \<and>
   fst (run_processFn (example_env [] True [] FAILED) example_argv) = Code 0 \<and>
   json (example_argv\<lparr>json := True, dryRun := Some True\<rparr>) \<and>
   fst (run_processFn (example_env [] True [example_action] SUCCESSFUL)
          (example_argv\<lparr>json := True, dryRun := Some True\<rparr>)) = Undefined"
  using run_exit_code [of example_argv "example_env [] True [example_action] SUCCESSFUL"]
    run_exit_code [of example_argv "example_env [] True [example_action] FAILED"]
    run_exit_code [of example_argv "example_env [] True [] FAILED"]
    run_exit_code [of "example_argv\<lparr>json := True, dryRun := Some True\<rparr>"
                      "example_env [] True [example_action] SUCCESSFUL"]
  by (simp add: ex_defs)

text \<open>
  C1 as stated fails for a run command that is not a dry run: with --json alone
  the command returns after the usage message, and the value it returns is
  neither 0 nor 1.
\<close>

theorem run_exit_code_counterexample:
  "dryRun (example_argv\<lparr>json := True\<rparr>) = None \<and>
   fst (run_processFn (example_env [] True [example_action] SUCCESSFUL)
          (example_argv\<lparr>json := True\<rparr>)) \<noteq> Code 0 \<and>
   fst (run_processFn (example_env [] True [example_action] SUCCESSFUL)
          (example_argv\<lparr>json := True\<rparr>)) \<noteq> Code 1"
  by (simp add: run_processFn_def example_argv_def truthy_bool_def)

lemma filter_Run_calls: "filter is_Run (calls t) = filter is_Run t"
  by (induction t) (auto simp: calls_def is_call_def)

lemma filter_Test_calls: "filter is_Test (calls t) = filter is_Test t"
  by (induction t) (auto simp: calls_def is_call_def)

lemma test_processFn_errors:
  assumes "compiledGraphHasErrors (compile env (compile_args_of (t_projectDir argv) (t_timeout argv)))"
  shows "test_processFn env argv =
           (Code 1,
            [Print (''Compiling...'' @ [nl]),
             Compile (compile_args_of (t_projectDir argv) (t_timeout argv)),
             PrintCompiledGraphErrors
               (graphErrors (compile env (compile_args_of (t_projectDir argv) (t_timeout argv))))])"
  using assms by (simp add: test_processFn_def Let_def)

subsection \<open>Compilation errors\<close>

text \<open>
  C5. When the compiled graph holds a compilation error, the run command
  (once past the --json guard, so that it compiles at all) and the test command
  print those errors and return 1 at once: compile is the only collaborator
  they call, so no execution graph is built, no unit test is run and nothing is
  handed to the runner.
\<close>

theorem compilation_errors_stop_the_command:
  "(\<not> (json argv \<and> \<not> truthy_bool (dryRun argv)) \<and>
    compiledGraphHasErrors (compiledGraph_of env argv) \<longrightarrow>
      run_processFn env argv =
        (Code 1,
         (if \<not> json argv then [Print (''Compiling...'' @ [nl])] else [])
         @ [Compile (compile_args_of (projectDir argv) (timeout argv)),
            PrintCompiledGraphErrors (graphErrors (compiledGraph_of env argv))]) \<and>
      calls (snd (run_processFn env argv)) =
        [Compile (compile_args_of (projectDir argv) (timeout argv))]) \<and>
   (compiledGraphHasErrors
      (compile env (compile_args_of (t_projectDir targv) (t_timeout targv))) \<longrightarrow>
      test_processFn env targv =
        (Code 1,
         [Print (''Compiling...'' @ [nl]),
          Compile (compile_args_of (t_projectDir targv) (t_timeout targv)),
          PrintCompiledGraphErrors
            (graphErrors (compile env (compile_args_of (t_projectDir targv) (t_timeout targv))))]) \<and>
      calls (snd (test_processFn env targv)) =
        [Compile (compile_args_of (t_projectDir targv) (t_timeout targv))])"
proof (intro conjI impI)
  assume a: "\<not> (json argv \<and> \<not> truthy_bool (dryRun argv)) \<and>
    compiledGraphHasErrors (compiledGraph_of env argv)"
  then have e: "run_processFn env argv =
        (Code 1,
         (if \<not> json argv then [Print (''Compiling...'' @ [nl])] else [])
         @ [Compile (compile_args_of (projectDir argv) (timeout argv)),
            PrintCompiledGraphErrors (graphErrors (compiledGraph_of env argv))])"
    using run_processFn_errors [of argv env] by blast
  show "run_processFn env argv =
        (Code 1,
         (if \<not> json argv then [Print (''Compiling...'' @ [nl])] else [])
         @ [Compile (compile_args_of (projectDir argv) (timeout argv)),
            PrintCompiledGraphErrors (graphErrors (compiledGraph_of env argv))])"
    by (rule e)
  show "calls (snd (run_processFn env argv)) =
        [Compile (compile_args_of (projectDir argv) (timeout argv))]"
    by (simp add: e)
next
  assume a: "compiledGraphHasErrors
      (compile env (compile_args_of (t_projectDir targv) (t_timeout targv)))"
  show "test_processFn env targv =
        (Code 1,
         [Print (''Compiling...'' @ [nl]),
          Compile (compile_args_of (t_projectDir targv) (t_timeout targv)),
          PrintCompiledGraphErrors
            (graphErrors (compile env (compile_args_of (t_projectDir targv) (t_timeout targv))))])"
    using a by (rule test_processFn_errors)
  show "calls (snd (test_processFn env targv)) =
        [Compile (compile_args_of (t_projectDir targv) (t_timeout targv))]"
    by (simp add: test_processFn_errors [OF a])
qed

theorem compilation_errors_stop_the_command_witness:
  "compiledGraphHasErrors
     (compiledGraph_of (example_env [example_error] True [example_action] SUCCESSFUL) example_argv) \<and>
   \<not> json example_argv \<and>
   fst (run_processFn (example_env [example_error] True [example_action] SUCCESSFUL) example_argv)
     = Code 1 \<and>
   calls (snd (run_processFn (example_env [example_error] True [example_action] SUCCESSFUL)
                 example_argv))
     = [Compile \<lparr> ca_projectDir = ''.'', ca_timeoutMillis = None \<rparr>] \<and>
   fst (test_processFn (example_env [example_error] True [example_action] SUCCESSFUL)
          example_test_argv) = Code 1 \<and>
   calls (snd (test_processFn (example_env [example_error] True [example_action] SUCCESSFUL)
                 example_test_argv))
     = [Compile \<lparr> ca_projectDir = ''.'', ca_timeoutMillis = None \<rparr>]"
  using compilation_errors_stop_the_command
    [of example_argv "example_env [example_error] True [example_action] SUCCESSFUL"
        example_test_argv]
  by (simp add: ex_defs example_test_argv_def example_error_def)

subsection \<open>The --run-tests gate\<close>

text \<open>
  C10. With --run-tests set and a failing unit test, the run command never
  starts the runner; whenever it ran the unit tests it returns 1, and without
  --json and without compilation errors it does run them: its calls are
  compile, build and test, in that order, and nothing after.
\<close>

theorem failing_unit_tests_abort_the_run:
  assumes "truthy_bool (runTests argv)" and "some_test_fails env argv"
  shows "filter is_Run (snd (run_processFn env argv)) = [] \<and>
         (filter is_Test (snd (run_processFn env argv)) \<noteq> [] \<longrightarrow>
            fst (run_processFn env argv) = Code 1) \<and>
         (\<not> json argv \<and> \<not> compiledGraphHasErrors (compiledGraph_of env argv) \<longrightarrow>
            fst (run_processFn env argv) = Code 1 \<and>
            calls (snd (run_processFn env argv)) =
              [Compile (compile_args_of (projectDir argv) (timeout argv)),
               Build (compiledGraph_of env argv) (run_config_of argv),
               Test (tests (compiledGraph_of env argv))])"
proof (cases "json argv")
  case j: True
  show ?thesis
  proof (cases "truthy_bool (dryRun argv)")
    case False
    then show ?thesis using j by (simp add: run_processFn_usage)
  next
    case dry: True
    show ?thesis
    proof (cases "compiledGraphHasErrors (compiledGraph_of env argv)")
      case True
      then show ?thesis using j dry run_processFn_errors [of argv env] by simp
    next
      case False
      then show ?thesis using j dry by (simp add: run_processFn_dry_json)
    qed
  qed
next
  case nj: False
  show ?thesis
  proof (cases "compiledGraphHasErrors (compiledGraph_of env argv)")
    case True
    then show ?thesis using nj run_processFn_errors [of argv env] by simp
  next
    case noerr: False
    have f: "list_ex (\<lambda>testResult. \<not> successful testResult)
               (test env (tests (compiledGraph_of env argv)))"
      using assms(2) by (simp add: some_test_fails_def)
    have c: "calls (snd (run_processFn env argv)) =
              [Compile (compile_args_of (projectDir argv) (timeout argv)),
               Build (compiledGraph_of env argv) (run_config_of argv),
               Test (tests (compiledGraph_of env argv))]"
      using nj noerr assms(1) f
      by (simp add: run_processFn_plain(2) run_tests_gate_fail(2))
    have r: "fst (run_processFn env argv) = Code 1"
      using nj noerr assms(1) f
      by (simp add: run_processFn_plain(1) run_tests_gate_fail(1))
    have "filter is_Run (calls (snd (run_processFn env argv))) = []"
      by (simp add: c)
    then have "filter is_Run (snd (run_processFn env argv)) = []"
      by (simp add: filter_Run_calls)
    then show ?thesis using c r by simp
  qed
qed

theorem failing_unit_tests_abort_the_run_witness:
  "truthy_bool (runTests (example_argv\<lparr>runTests := Some True\<rparr>)) \<and>
   some_test_fails (example_env [] False [example_action] SUCCESSFUL)
     (example_argv\<lparr>runTests := Some True\<rparr>) \<and>
   filter is_Test (snd (run_processFn (example_env [] False [example_action] SUCCESSFUL)
     (example_argv\<lparr>runTests := Some True\<rparr>))) = [Test [example_test]] \<and>
   fst (run_processFn (example_env [] False [example_action] SUCCESSFUL)
     (example_argv\<lparr>runTests := Some True\<rparr>)) = Code 1 \<and>
   filter is_Run (snd (run_processFn (example_env [] False [example_action] SUCCESSFUL)
     (example_argv\<lparr>runTests := Some True\<rparr>))) = []"
proof -
  let ?argv = "example_argv\<lparr>runTests := Some True\<rparr>"
  let ?env = "example_env [] False [example_action] SUCCESSFUL"
  have h1: "truthy_bool (runTests ?argv)" by (simp add: truthy_bool_def)
  have h2: "some_test_fails ?env ?argv" by (simp add: ex_defs)
  have t: "filter is_Test (calls (snd (run_processFn ?env ?argv))) = [Test [example_test]]"
    using failing_unit_tests_abort_the_run [OF h1 h2] by (simp add: ex_defs)
  show ?thesis
    using h1 h2 t failing_unit_tests_abort_the_run [OF h1 h2]
    by (simp add: filter_Test_calls example_argv_def)
qed

subsection \<open>Dry runs\<close>

lemma filter_Run_dispatch:
  "eg_actions g \<noteq> [] \<Longrightarrow>
   filter is_Run (snd (run_dispatch env argv g)) = [Run g (bigqueryOptions_of argv)]"
  using filter_Run_calls [of "snd (run_dispatch env argv g)"]
  by (simp add: run_dispatch_nonempty(2))

lemma pea_map [simp]:
  "filter is_PrintExecutedAction (map (\<lambda>a. PrintExecutedAction a (f a) dry) xs) =
   map (\<lambda>a. PrintExecutedAction a (f a) dry) xs"
  by (induction xs) simp_all














subsection \<open>The checks of --include-deps and --include-dependents\<close>




subsection \<open>The retry policy\<close>

lemma attempts_retried:
  "retried \<le> snd (attempts succeeds left retried) \<and>
   snd (attempts succeeds left retried) \<le> retried + left"
proof (induction left arbitrary: retried)
  case 0
  show ?case by simp
next
  case (Suc left)
  show ?case using Suc [of "Suc retried"] by (cases "succeeds retried") simp_all
qed

lemma attempts_failed:
  "(fst (attempts succeeds left retried) = FAILED) =
   (\<forall>i. retried \<le> i \<and> i \<le> retried + left \<longrightarrow> \<not> succeeds i)"
proof (induction left arbitrary: retried)
  case 0
  then show ?case by auto
next
  case (Suc left)
  show ?case
  proof (cases "succeeds retried")
    case True
    then show ?thesis by auto
  next
    case False
    have "(\<forall>i. Suc retried \<le> i \<and> i \<le> Suc retried + left \<longrightarrow> \<not> succeeds i) =
          (\<forall>i. retried \<le> i \<and> i \<le> retried + Suc left \<longrightarrow> \<not> succeeds i)"
      using False by (metis Suc_leD Suc_leI add_Suc add_Suc_right le_neq_implies_less)
    then show ?thesis using False Suc [of "Suc retried"] by simp
  qed
qed

lemma attempts_successful:
  "fst (attempts succeeds left retried) = SUCCESSFUL \<or>
   fst (attempts succeeds left retried) = FAILED"
  by (induction left arbitrary: retried) auto

lemma attempts_last:
  "fst (attempts succeeds left retried) = SUCCESSFUL \<Longrightarrow>
   succeeds (snd (attempts succeeds left retried))"
  by (induction left arbitrary: retried) (auto split: if_splits)

lemma run_processFn_runs:
  "set (filter is_Run (snd (run_processFn env argv))) \<subseteq>
     {Run (executionGraph_of env argv) (bigqueryOptions_of argv)}"
proof (cases "json argv")
  case j: True
  show ?thesis
  proof (cases "truthy_bool (dryRun argv)")
    case False
    then show ?thesis using j by (simp add: run_processFn_usage)
  next
    case dry: True
    show ?thesis
    proof (cases "compiledGraphHasErrors (compiledGraph_of env argv)")
      case True
      then show ?thesis using j dry run_processFn_errors [of argv env] by simp
    next
      case False
      then show ?thesis using j dry by (simp add: run_processFn_dry_json)
    qed
  qed
next
  case nj: False
  let ?eg = "executionGraph_of env argv"
  let ?cg = "compiledGraph_of env argv"
  show ?thesis
  proof (cases "compiledGraphHasErrors ?cg")
    case True
    then show ?thesis using nj run_processFn_errors [of argv env] by simp
  next
    case noerr: False
    have d: "set (filter is_Run (calls (snd (run_dispatch env argv ?eg)))) \<subseteq>
               {Run ?eg (bigqueryOptions_of argv)}"
    proof (cases "eg_actions ?eg = []")
      case True
      then show ?thesis by (simp add: run_dispatch_empty)
    next
      case False
      then show ?thesis by (simp add: run_dispatch_nonempty(2))
    qed
    have g: "set (filter is_Run (calls (snd (run_tests_gate env argv ?cg ?eg)))) \<subseteq>
               {Run ?eg (bigqueryOptions_of argv)}"
    proof (cases "truthy_bool (runTests argv)")
      case False
      then show ?thesis using d by (simp add: run_tests_gate_skip)
    next
      case rt: True
      show ?thesis
      proof (cases "list_ex (\<lambda>testResult. \<not> successful testResult) (test env (tests ?cg))")
        case True
        then show ?thesis using rt by (simp add: run_tests_gate_fail(2))
      next
        case False
        then show ?thesis using rt d by (simp add: run_tests_gate_pass(2))
      qed
    qed
    have "set (filter is_Run (calls (snd (run_processFn env argv)))) \<subseteq>
            {Run ?eg (bigqueryOptions_of argv)}"
      using nj noerr g by (simp add: run_processFn_plain(2))
    then show ?thesis by (simp add: filter_Run_calls)
  qed
qed

text \<open>
  C3. The command line hands its --action-retry-limit to the runner unchanged,
  in the options of the only run it starts. In the runner of the specification,
  TABLE, VIEW, full-refresh INCREMENTAL and DataPreparation \<open>replace\<close> are
  idempotent, and an idempotent action is retried at most \<open>actionRetryLimit\<close>
  times: it ends FAILED exactly when the first attempt and every retry up to
  the limit fail. An incremental merge, an \<open>append\<close>, \<open>unique\<close> or \<open>maximum\<close>
  load, an Operation and an Assertion are not idempotent, and an action that
  is not is retried zero times whatever the limit: its status is the first
  attempt's.
\<close>

theorem retry_policy:
  "(set (filter is_Run (snd (run_processFn env argv))) \<subseteq>
      {Run (executionGraph_of env argv) (bigqueryOptions_of argv)} \<and>
    bq_actionRetryLimit (bigqueryOptions_of argv) = actionRetryLimit argv) \<and>
   (idempotent refresh (Table TABLE) \<and> idempotent refresh (Table VIEW) \<and>
    idempotent True (Table INCREMENTAL) \<and> idempotent refresh (DataPreparation Replace)) \<and>
   (\<not> idempotent False (Table INCREMENTAL) \<and>
    \<not> idempotent refresh (DataPreparation Append) \<and>
    \<not> idempotent refresh (DataPreparation (Unique c)) \<and>
    \<not> idempotent refresh (DataPreparation (Maximum c)) \<and>
    \<not> idempotent refresh Operation \<and> \<not> idempotent refresh Assertion) \<and>
   (idempotent refresh k \<longrightarrow>
      snd (executeAction opts refresh k succeeds) \<le> nat (bq_actionRetryLimit opts) \<and>
      ((fst (executeAction opts refresh k succeeds) = FAILED) =
       (\<forall>i \<le> nat (bq_actionRetryLimit opts). \<not> succeeds i))) \<and>
   (\<not> idempotent refresh k \<longrightarrow>
      executeAction opts refresh k succeeds =
        (if succeeds 0 then SUCCESSFUL else FAILED, 0))"
proof -
  have a: "idempotent refresh k \<Longrightarrow>
      snd (executeAction opts refresh k succeeds) \<le> nat (bq_actionRetryLimit opts)"
    using attempts_retried [of 0 succeeds "nat (bq_actionRetryLimit opts)"]
    by (simp add: executeAction_def retry_budget_def)
  have b: "idempotent refresh k \<Longrightarrow>
      (fst (executeAction opts refresh k succeeds) = FAILED) =
       (\<forall>i \<le> nat (bq_actionRetryLimit opts). \<not> succeeds i)"
    using attempts_failed [of succeeds "nat (bq_actionRetryLimit opts)" 0]
    by (simp add: executeAction_def retry_budget_def)
  have c: "\<not> idempotent refresh k \<Longrightarrow>
      executeAction opts refresh k succeeds =
        (if succeeds 0 then SUCCESSFUL else FAILED, 0)"
    by (simp add: executeAction_def retry_budget_def)
  have d: "bq_actionRetryLimit (bigqueryOptions_of argv) = actionRetryLimit argv"
    by (simp add: bigqueryOptions_of_def)
  show ?thesis using a b c d run_processFn_runs [of env argv] by simp
qed

theorem retry_policy_witness:
  "idempotent False (Table TABLE) \<and>
   executeAction (bigqueryOptions_of (example_argv\<lparr>actionRetryLimit := 2\<rparr>)) False
     (Table TABLE) (\<lambda>i. False) = (FAILED, 2) \<and>
   executeAction (bigqueryOptions_of (example_argv\<lparr>actionRetryLimit := 2\<rparr>)) False
     (Table TABLE) (\<lambda>i. i = 1) = (SUCCESSFUL, 1) \<and>
   \<not> idempotent False Assertion \<and>
   executeAction (bigqueryOptions_of (example_argv\<lparr>actionRetryLimit := 2\<rparr>)) False
     Assertion (\<lambda>i. i = 1) = (FAILED, 0)"
  using retry_policy [of "example_env [] True [example_action] SUCCESSFUL"
      "example_argv\<lparr>actionRetryLimit := 2\<rparr>" False "''id''" "Table TABLE"
      "bigqueryOptions_of (example_argv\<lparr>actionRetryLimit := 2\<rparr>)" "\<lambda>i. False"]
    retry_policy [of "example_env [] True [example_action] SUCCESSFUL"
      "example_argv\<lparr>actionRetryLimit := 2\<rparr>" False "''id''" Assertion
      "bigqueryOptions_of (example_argv\<lparr>actionRetryLimit := 2\<rparr>)" "\<lambda>i. i = 1"]
  by (simp add: executeAction_def retry_budget_def bigqueryOptions_of_def example_argv_def
      numeral_2_eq_2)

subsection \<open>The schema-change policy\<close>

lemma alter_table_append:
  "alter_table columns (ds @ es) = alter_table (alter_table columns ds) es"
  by (simp add: alter_table_def)

lemma alter_table_add: "alter_table columns (map AddColumn cs) = columns @ cs"
  unfolding alter_table_def by (induction cs arbitrary: columns) simp_all

lemma alter_table_drop:
  "set (alter_table columns (map DropColumn cs)) = set columns - set cs"
  unfolding alter_table_def by (induction cs arbitrary: columns) auto

lemma reconcile_extend:
  assumes "set t \<subseteq> set q"
  shows "reconcile EXTEND t q = Inr (map AddColumn (filter (\<lambda>c. c \<notin> set t) q))"
    and "set (alter_table t (map AddColumn (filter (\<lambda>c. c \<notin> set t) q))) = set q"
  using assms by (auto simp: reconcile_def list_ex_iff alter_table_add)

lemma reconcile_synchronize:
  "set (alter_table t
          (map AddColumn (filter (\<lambda>c. c \<notin> set t) q)
           @ map DropColumn (filter (\<lambda>c. c \<notin> set q) t))) = set q"
  by (auto simp: alter_table_append alter_table_add alter_table_drop)

text \<open>
  C6. In the incremental merge of the specification: IGNORE issues the merge
  alone, with no reconciliation; FAIL aborts with no statement issued whenever
  the target's and the query's column sets differ, and issues the merge alone
  when they agree; EXTEND aborts when a column of the target is missing from
  the query (removed or renamed), and otherwise adds exactly the query's new
  columns, after which the target has the query's columns; SYNCHRONIZE adds
  the new columns and drops the ones absent from the query, after which the
  target has exactly the query's columns.
\<close>

theorem schema_change_policy:
  "incremental_merge IGNORE t q = Inr [Merge] \<and>
   (set t \<noteq> set q \<longrightarrow> incremental_merge FAIL t q = Inl ''schema mismatch'') \<and>
   (set t = set q \<longrightarrow> incremental_merge FAIL t q = Inr [Merge]) \<and>
   (set t \<subseteq> set q \<longrightarrow>
      incremental_merge EXTEND t q =
        Inr (map (\<lambda>c. AlterTable (AddColumn c)) (filter (\<lambda>c. c \<notin> set t) q) @ [Merge]) \<and>
      set (alter_table t (map AddColumn (filter (\<lambda>c. c \<notin> set t) q))) = set q) \<and>
   (\<not> set t \<subseteq> set q \<longrightarrow> incremental_merge EXTEND t q = Inl ''column removed or renamed'') \<and>
   (incremental_merge SYNCHRONIZE t q =
      Inr (map AlterTable
             (map AddColumn (filter (\<lambda>c. c \<notin> set t) q)
              @ map DropColumn (filter (\<lambda>c. c \<notin> set q) t)) @ [Merge]) \<and>
    set (alter_table t
           (map AddColumn (filter (\<lambda>c. c \<notin> set t) q)
            @ map DropColumn (filter (\<lambda>c. c \<notin> set q) t))) = set q)"
proof -
  have i: "incremental_merge IGNORE t q = Inr [Merge]"
    by (simp add: incremental_merge_def reconcile_def)
  have f: "incremental_merge FAIL t q =
             (if set t \<noteq> set q then Inl ''schema mismatch'' else Inr [Merge])"
    by (simp add: incremental_merge_def reconcile_def)
  have e1: "set t \<subseteq> set q \<Longrightarrow> incremental_merge EXTEND t q =
        Inr (map (\<lambda>c. AlterTable (AddColumn c)) (filter (\<lambda>c. c \<notin> set t) q) @ [Merge])"
    by (simp add: incremental_merge_def reconcile_extend(1) comp_def)
  have e2: "\<not> set t \<subseteq> set q \<Longrightarrow>
        incremental_merge EXTEND t q = Inl ''column removed or renamed''"
    by (auto simp: incremental_merge_def reconcile_def list_ex_iff)
  have s: "incremental_merge SYNCHRONIZE t q =
      Inr (map AlterTable
             (map AddColumn (filter (\<lambda>c. c \<notin> set t) q)
              @ map DropColumn (filter (\<lambda>c. c \<notin> set q) t)) @ [Merge])"
    by (simp add: incremental_merge_def reconcile_def)
  show ?thesis
    using i f e1 e2 s reconcile_extend(2) [of t q] reconcile_synchronize [of t q]
    by simp
qed

theorem schema_change_policy_witness:
  "set [''id'', ''name''] \<noteq> set [''id'', ''name'', ''extra''] \<and>
   incremental_merge FAIL [''id'', ''name''] [''id'', ''name'', ''extra'']
     = Inl ''schema mismatch'' \<and>
   incremental_merge EXTEND [''id'', ''name''] [''id'', ''name'', ''extra'']
     = Inr [AlterTable (AddColumn ''extra''), Merge] \<and>
   alter_table [''id'', ''name''] [AddColumn ''extra''] = [''id'', ''name'', ''extra''] \<and>
   incremental_merge EXTEND [''id'', ''name''] [''id''] = Inl ''column removed or renamed'' \<and>
   incremental_merge SYNCHRONIZE [''id'', ''name''] [''id'', ''extra'']
     = Inr [AlterTable (AddColumn ''extra''), AlterTable (DropColumn ''name''), Merge]"
proof -
  let ?t = "[''id'', ''name'']"
  let ?q = "[''id'', ''name'', ''extra'']"
  have "''extra'' \<in> set ?q" and "''extra'' \<notin> set ?t" by simp_all
  then have ne: "set ?t \<noteq> set ?q" by metis
  have sub: "set ?t \<subseteq> set ?q" by simp
  have "''name'' \<in> set ?t" and "''name'' \<notin> set [''id'']" by simp_all
  then have nsub: "\<not> set ?t \<subseteq> set [''id'']" by blast
  note a = schema_change_policy [of ?t ?q]
  note b = schema_change_policy [of ?t "[''id'']"]
  note c = schema_change_policy [of ?t "[''id'', ''extra'']"]
  have f: "incremental_merge FAIL ?t ?q = Inl ''schema mismatch''"
    using a [THEN conjunct2, THEN conjunct1] ne by (rule mp)
  have e: "incremental_merge EXTEND ?t ?q =
        Inr (map (\<lambda>c. AlterTable (AddColumn c)) (filter (\<lambda>c. c \<notin> set ?t) ?q) @ [Merge])"
    using a [THEN conjunct2, THEN conjunct2, THEN conjunct2, THEN conjunct1, THEN mp, OF sub]
    by (rule conjunct1)
  have e': "incremental_merge EXTEND ?t ?q = Inr [AlterTable (AddColumn ''extra''), Merge]"
    unfolding e by simp
  have x: "incremental_merge EXTEND ?t [''id''] = Inl ''column removed or renamed''"
    using b [THEN conjunct2, THEN conjunct2, THEN conjunct2, THEN conjunct2, THEN conjunct1]
      nsub by (rule mp)
  have s: "incremental_merge SYNCHRONIZE ?t [''id'', ''extra''] =
      Inr (map AlterTable
             (map AddColumn (filter (\<lambda>c. c \<notin> set ?t) [''id'', ''extra''])
              @ map DropColumn (filter (\<lambda>c. c \<notin> set [''id'', ''extra'']) ?t)) @ [Merge])"
    using c [THEN conjunct2, THEN conjunct2, THEN conjunct2, THEN conjunct2, THEN conjunct2]
    by (rule conjunct1)
  have s': "incremental_merge SYNCHRONIZE ?t [''id'', ''extra''] =
      Inr [AlterTable (AddColumn ''extra''), AlterTable (DropColumn ''name''), Merge]"
    unfolding s by simp
  have al: "alter_table ?t [AddColumn ''extra''] = ?q"
    by (simp add: alter_table_def)
  show ?thesis
    using ne f e' al x s' by (intro conjI)
qed

subsection \<open>The load modes\<close>

lemma fold_max_less:
  "(fold max vs (v::'v::linorder) < x) = (v < x \<and> (\<forall>y\<in>set vs. y < x))"
  by (induction vs arbitrary: v) auto

lemma load_maximum:
  "load_rows cell (MAXIMUM, c) t s =
     t @ filter (\<lambda>r. \<forall>x\<in>set t. cell c x < cell c r) s"
proof (cases t)
  case Nil
  then show ?thesis by (simp add: current_max_def)
next
  case (Cons a rest)
  then show ?thesis by (simp add: current_max_def fold_max_less)
qed

lemma load_unique:
  "load_rows cell (UNIQUE, c) t s =
     t @ filter (\<lambda>r. \<forall>x\<in>set t. cell c x \<noteq> cell c r) s"
proof -
  have "(cell c r \<notin> set (map (cell c) t)) = (\<forall>x\<in>set t. cell c x \<noteq> cell c r)" for r
    by (induction t) auto
  then show ?thesis by simp
qed

text \<open>
  C7. In the load of the specification: \<open>replace\<close> leaves exactly the loaded
  rows; \<open>append\<close> keeps the target and inserts all rows; \<open>maximum\<close> keeps the
  target and inserts the rows whose value in the configured column is above
  that of every row of the target; \<open>unique\<close> keeps the target and inserts the
  rows whose value in the configured column no row of the target has;
  \<open>automatic\<close> resolves to \<open>maximum\<close> when its ordering column is known
  and to \<open>append\<close> otherwise.
\<close>

theorem load_modes:
  "load_rows cell (resolve_load Replace) t s = s \<and>
   load_rows cell (resolve_load Append) t s = t @ s \<and>
   load_rows cell (resolve_load (Maximum c)) t s =
     t @ filter (\<lambda>r. \<forall>x\<in>set t. cell c x < cell c r) s \<and>
   load_rows cell (resolve_load (Unique c)) t s =
     t @ filter (\<lambda>r. \<forall>x\<in>set t. cell c x \<noteq> cell c r) s \<and>
   resolve_load (Automatic c) =
     (if c \<noteq> [] then resolve_load (Maximum c) else resolve_load Append)"
  using load_maximum [of cell c t s] load_unique [of cell c t s]
  by (simp add: resolve_load_def del: load_rows.simps(3,4))

theorem load_modes_witness:
  "load_rows example_cell (resolve_load Replace) [(1, 10), (2, 20)] [(2, 15), (3, 30)]
     = [(2, 15), (3, 30)] \<and>
   load_rows example_cell (resolve_load Append) [(1, 10), (2, 20)] [(2, 15), (3, 30)]
     = [(1, 10), (2, 20), (2, 15), (3, 30)] \<and>
   load_rows example_cell (resolve_load (Maximum ''ts'')) [(1, 10), (2, 20)] [(2, 15), (3, 30)]
     = [(1, 10), (2, 20), (3, 30)] \<and>
   load_rows example_cell (resolve_load (Unique ''id'')) [(1, 10), (2, 20)] [(2, 15), (3, 30)]
     = [(1, 10), (2, 20), (3, 30)] \<and>
   load_rows example_cell (resolve_load (Automatic ''ts'')) [(1, 10), (2, 20)] [(2, 15), (3, 30)]
     = [(1, 10), (2, 20), (3, 30)] \<and>
   load_rows example_cell (resolve_load (Automatic [])) [(1, 10), (2, 20)] [(2, 15), (3, 30)]
     = [(1, 10), (2, 20), (2, 15), (3, 30)]"
  using load_modes [of example_cell "[(1, 10), (2, 20)]" "[(2, 15), (3, 30)]" "''ts''"]
    load_modes [of example_cell "[(1, 10), (2, 20)]" "[(2, 15), (3, 30)]" "''id''"]
    load_modes [of example_cell "[(1, 10), (2, 20)]" "[(2, 15), (3, 30)]" "[]"]
  by (simp add: example_cell_def del: load_rows.simps(3,4))

end
